theory Spec2Isabelle
  imports Complex_Main
begin

section \<open>Wall-clock instants\<close>

text \<open>
  A JavaScript \<open>Date\<close> is modelled by the number of milliseconds since
  1970-01-01 00:00:00.000 of the local wall clock (a fixed zone offset, no
  daylight-saving jump inside the interval looked at).  The accessors below are the
  local-time getters of \<open>Date\<close>.  1970-01-01 was a Thursday (day 4).
\<close>

type_synonym instant = int

definition getMilliseconds :: "instant \<Rightarrow> int" where
  "getMilliseconds t = t mod 1000"

definition getSeconds :: "instant \<Rightarrow> int" where
  "getSeconds t = (t div 1000) mod 60"

definition getMinutes :: "instant \<Rightarrow> int" where
  "getMinutes t = (t div 60000) mod 60"

definition getHours :: "instant \<Rightarrow> int" where
  "getHours t = (t div 3600000) mod 24"

definition getDay :: "instant \<Rightarrow> int" where
  "getDay t = (t div 86400000 + 4) mod 7"

text \<open>Builds the instant of a given day number, hour, minute, second and millisecond.\<close>

definition mkInstant :: "int \<Rightarrow> int \<Rightarrow> int \<Rightarrow> int \<Rightarrow> int \<Rightarrow> instant" where
  "mkInstant d h m s ms = d * 86400000 + h * 3600000 + m * 60000 + s * 1000 + ms"

section \<open>lib/time-utils.ts: the scheduler's aligned delay\<close>

text \<open>
  A JavaScript number that may be \<open>NaN\<close> is an \<open>int option\<close>, \<open>None\<close> being
  \<open>NaN\<close>.  Intervals are whole minutes; with \<open>intervalMinutes = 0\<close> the quotient
  \<open>currentMinutes / intervalMinutes\<close> is \<open>Infinity\<close> or \<open>NaN\<close>, its product with
  \<open>0\<close> is \<open>NaN\<close>, the test \<open>NaN >= 60\<close> is false and the delay is \<open>NaN\<close>.
  For every other integer interval \<open>Math.floor\<close> of the quotient is \<open>div\<close>.
\<close>

type_synonym jsnum = "int option"

definition getNextAlignedDelay :: "int \<Rightarrow> instant \<Rightarrow> jsnum" where
  "getNextAlignedDelay intervalMinutes now =
     (let currentMinutes = getMinutes now;
          currentSeconds = getSeconds now;
          currentMs = getMilliseconds now
      in if intervalMinutes = 0 then None
         else
           let intervalsPassed = currentMinutes div intervalMinutes;
               nextIntervalMinute = (intervalsPassed + 1) * intervalMinutes
           in if nextIntervalMinute \<ge> 60 then
                (let minutesUntilNextHour = 60 - currentMinutes;
                     secondsUntilNextHour = 60 - currentSeconds;
                     msUntilNextHour = 1000 - currentMs
                 in Some ((minutesUntilNextHour - 1) * 60 * 1000
                          + secondsUntilNextHour * 1000 + msUntilNextHour))
              else
                (let minutesUntilNext = nextIntervalMinute - currentMinutes;
                     secondsUntilNext = 60 - currentSeconds;
                     msUntilNext = 1000 - currentMs
                 in Some ((minutesUntilNext - 1) * 60 * 1000
                          + secondsUntilNext * 1000 + msUntilNext)))"

text \<open>The minute of the hour at which the next block of \<open>I\<close> minutes starts (60 is
  the top of the next hour), and the start of the clock hour of an instant.\<close>

definition nextBlockMinute :: "int \<Rightarrow> instant \<Rightarrow> int" where
  "nextBlockMinute I now =
     (let n = (getMinutes now div I + 1) * I in if n \<ge> 60 then 60 else n)"

definition hourStart :: "instant \<Rightarrow> instant" where
  "hourStart t = t - t mod 3600000"

lemma instant_split:
  "(t::int) = hourStart t + getMinutes t * 60000 + getSeconds t * 1000 + getMilliseconds t"
proof -
  have a: "t mod 3600000 = (t div 60000) mod 60 * 60000 + t mod 60000"
    using zmod_zmult2_eq [of 60 t 60000] by simp
  have b: "t mod 60000 = (t div 1000) mod 60 * 1000 + t mod 1000"
    using zmod_zmult2_eq [of 60 t 1000] by simp
  show ?thesis
    unfolding hourStart_def getMinutes_def getSeconds_def getMilliseconds_def
    using a b by simp
qed

lemma delay_arith:
  fixes t h m s ms n :: int
  assumes "t = h + m * 60000 + s * 1000 + ms"
  shows "t + ((n - m - 1) * 60 * 1000 + (60 - s) * 1000 + (1000 - ms)) = h + n * 60000 + 1000"
  using assms by (simp add: algebra_simps)

lemma getNextAlignedDelay_lands:
  assumes "I \<noteq> 0"
  shows "\<exists>d. getNextAlignedDelay I now = Some d \<and>
             now + d = hourStart now + nextBlockMinute I now * 60000 + 1000"
proof (cases "(getMinutes now div I + 1) * I \<ge> 60")
  case True
  define d where "d = (60 - getMinutes now - 1) * 60 * 1000 + (60 - getSeconds now) * 1000
            + (1000 - getMilliseconds now)"
  have g: "getNextAlignedDelay I now = Some d"
    using assms True by (simp add: getNextAlignedDelay_def Let_def d_def)
  have nb: "nextBlockMinute I now = 60"
    using True by (simp add: nextBlockMinute_def Let_def)
  have "now + d = hourStart now + 60 * 60000 + 1000"
    unfolding d_def by (rule delay_arith [OF instant_split])
  with g nb show ?thesis by simp
next
  case False
  define n where "n = (getMinutes now div I + 1) * I"
  define d where "d = (n - getMinutes now - 1) * 60 * 1000 + (60 - getSeconds now) * 1000
            + (1000 - getMilliseconds now)"
  have g: "getNextAlignedDelay I now = Some d"
    using assms False by (simp add: getNextAlignedDelay_def Let_def d_def n_def)
  have nb: "nextBlockMinute I now = n"
    using False by (simp add: nextBlockMinute_def Let_def n_def)
  have "now + d = hourStart now + n * 60000 + 1000"
    unfolding d_def by (rule delay_arith [OF instant_split])
  with g nb show ?thesis by simp
qed

text \<open>
  Claim C1.  The aligned delay is meant to land on the start of the next block with zero
  seconds and zero milliseconds.  With an interval of 5 minutes at 12:03:10.000 the
  code returns 111000 ms, and 12:03:10.000 plus 111000 ms is 12:05:01.000: the run is
  one second past the block start 12:05:00.000.
\<close>

theorem getNextAlignedDelay_12_03_10:
  "getNextAlignedDelay 5 (mkInstant 0 12 3 10 0) = Some 111000
   \<and> mkInstant 0 12 3 10 0 + 111000 = mkInstant 0 12 5 1 0
   \<and> mkInstant 0 12 3 10 0 + 111000 \<noteq> mkInstant 0 12 5 0 0
   \<and> getSeconds (mkInstant 0 12 3 10 0 + 111000) = 1"
  by (simp add: getNextAlignedDelay_def mkInstant_def getMinutes_def getSeconds_def
        getMilliseconds_def Let_def)


section \<open>Timers and dates of the runtime\<close>

text \<open>A delay that is \<open>NaN\<close>, below 1 or above \<open>2^31 - 1\<close> is taken as 1 ms by the timer.\<close>

definition effectiveDelay :: "jsnum \<Rightarrow> int" where
  "effectiveDelay delay =
     (case delay of
        None \<Rightarrow> 1
      | Some d \<Rightarrow> if d < 1 \<or> d > 2147483647 then 1 else d)"

text \<open>
  \<open>new Date(t)\<close> holds a time value only within 8.64e15 ms of the epoch; outside, the
  date is invalid (\<open>None\<close>): it compares false with everything and its
  \<open>toISOString()\<close> throws a \<open>RangeError\<close>.
\<close>

definition inDateRange :: "int \<Rightarrow> bool" where
  "inDateRange t = (- 8640000000000000 \<le> t \<and> t \<le> 8640000000000000)"

definition newDate :: "int \<Rightarrow> jsnum" where
  "newDate t = (if inDateRange t then Some t else None)"

section \<open>Strings\<close>

text \<open>
  Strings are \<open>char list\<close>.  \<open>toLowerCase\<close> below folds the ASCII letters; it is
  used where the seven English day names are looked up, on which it agrees with
  \<open>String.prototype.toLowerCase\<close>.  \<open>split\<close> is modelled on a one-character separator.  \<open>Number\<close> is modelled on what the
  \<open>HH:MM\<close> format holds: a string of decimal digits is its value and the empty string
  is \<open>0\<close>.  Every other string is \<open>NaN\<close> here; JavaScript also reads signs,
  fractions, exponents and surrounding blanks, which the format does not have.
\<close>

definition toLowerChar :: "char \<Rightarrow> char" where
  "toLowerChar c =
     (case map_of (zip ''ABCDEFGHIJKLMNOPQRSTUVWXYZ'' ''abcdefghijklmnopqrstuvwxyz'') c of
        Some d \<Rightarrow> d
      | None \<Rightarrow> c)"

definition toLowerCase :: "string \<Rightarrow> string" where
  "toLowerCase s = map toLowerChar s"

fun splitOn :: "char \<Rightarrow> string \<Rightarrow> string list" where
  "splitOn sep [] = [[]]"
| "splitOn sep (c # cs) =
     (if c = sep then [] # splitOn sep cs
      else (case splitOn sep cs of
              p # ps \<Rightarrow> (c # p) # ps
            | [] \<Rightarrow> [[c]]))"

definition digitValue :: "char \<Rightarrow> int option" where
  "digitValue c = map_of (zip ''0123456789'' [0, 1, 2, 3, 4, 5, 6, 7, 8, 9]) c"

fun parseDigits :: "string \<Rightarrow> int \<Rightarrow> jsnum" where
  "parseDigits [] acc = Some acc"
| "parseDigits (c # cs) acc =
     (case digitValue c of
        None \<Rightarrow> None
      | Some d \<Rightarrow> parseDigits cs (acc * 10 + d))"

definition Number :: "string \<Rightarrow> jsnum" where
  "Number s = parseDigits s 0"

section \<open>lib/time-utils.ts: time windows\<close>

record TimeWindow =
  tw_days :: "string list"
  tw_start :: string
  tw_end :: string

text \<open>\<open>hours * 60 + minutes\<close> is \<open>NaN\<close> when a part is missing or not a number.\<close>

definition timeToMinutes :: "string \<Rightarrow> jsnum" where
  "timeToMinutes timeStr =
     (case map Number (splitOn CHR '':'' timeStr) of
        hours # minutes # _ \<Rightarrow>
          (case (hours, minutes) of
             (Some h, Some m) \<Rightarrow> Some (h * 60 + m)
           | _ \<Rightarrow> None)
      | _ \<Rightarrow> None)"

definition dayNames :: "string list" where
  "dayNames = [''sunday'', ''monday'', ''tuesday'', ''wednesday'', ''thursday'',
               ''friday'', ''saturday'']"

text \<open>Every comparison with \<open>NaN\<close> is false, so a window with an unreadable start or
  end contains no instant.\<close>

definition isWithinTimeWindow :: "TimeWindow \<Rightarrow> instant \<Rightarrow> bool" where
  "isWithinTimeWindow window date =
     (let currentDay = dayNames ! nat (getDay date);
          currentMinutes = getHours date * 60 + getMinutes date;
          normalizedDays = map toLowerCase (tw_days window)
      in case (timeToMinutes (tw_start window), timeToMinutes (tw_end window)) of
           (Some startMinutes, Some endMinutes) \<Rightarrow>
             if endMinutes < startMinutes then
               (if currentMinutes \<le> endMinutes then
                  (let yesterday = dayNames ! nat ((getDay date - 1 + 7) mod 7)
                   in yesterday \<in> set normalizedDays)
                else if currentMinutes \<ge> startMinutes then currentDay \<in> set normalizedDays
                else False)
             else if currentMinutes \<ge> startMinutes \<and> currentMinutes \<le> endMinutes then
               currentDay \<in> set normalizedDays
             else False
         | _ \<Rightarrow> False)"

section \<open>plugins/evohome/services/zone-service.ts: override rules\<close>

record OverrideRule =
  roomName :: string
  allowOverride :: bool
  timeWindows :: "TimeWindow list"

text \<open>
  The service reads \<open>this.config.overrideRules\<close>; the rule list is an argument here.
  Room names are free text, and \<open>String.prototype.toLowerCase\<close> folds every cased
  letter of Unicode, not only the ASCII ones.  The folding applied to room names is
  therefore the argument \<open>lower\<close>: it stands for the builtin, and whatever is proved
  below holds for every folding.
\<close>

definition isOverrideAllowed ::
  "(string \<Rightarrow> string) \<Rightarrow> OverrideRule list \<Rightarrow> string \<Rightarrow> instant \<Rightarrow> bool" where
  "isOverrideAllowed lower overrideRules name date =
     (let normalizedName = lower name
      in case find (\<lambda>r. lower (roomName r) = normalizedName) overrideRules of
           None \<Rightarrow> True
         | Some rule \<Rightarrow>
             if \<not> allowOverride rule then True
             else if length (timeWindows rule) = 0 then False
             else (let isInBlockedWindow =
                         list_ex (\<lambda>window. isWithinTimeWindow window date) (timeWindows rule)
                   in \<not> isInBlockedWindow))"

text \<open>The rule that \<open>isOverrideAllowed\<close> applies to a room: the first one whose folded
  name is the folded room name.\<close>

definition matchingRule ::
  "(string \<Rightarrow> string) \<Rightarrow> OverrideRule list \<Rightarrow> string \<Rightarrow> OverrideRule option" where
  "matchingRule lower overrideRules name =
     find (\<lambda>r. lower (roomName r) = lower name) overrideRules"

definition nightWindow :: TimeWindow where
  "nightWindow = \<lparr>tw_days = [''monday''], tw_start = ''23:00'', tw_end = ''06:00''\<rparr>"

lemma timeToMinutes_examples:
  "timeToMinutes ''23:00'' = Some 1380" "timeToMinutes ''06:00'' = Some 360"
  "timeToMinutes ''09:00'' = Some 540" "timeToMinutes ''17:00'' = Some 1020"
  by (simp_all add: timeToMinutes_def Number_def digitValue_def)

lemma toLowerCase_day_names:
  "toLowerCase ''monday'' = ''monday''" "toLowerCase ''Monday'' = ''monday''"
  by (simp_all add: toLowerCase_def toLowerChar_def)

text \<open>
  Claim C4.  For a window whose end is earlier than its start, an instant is inside the
  window exactly when its minute of the day is at most the end and the previous weekday
  is one of the window's days, or its minute of the day is at least the start and its
  own weekday is one of the window's days (day names compared in lower case).
\<close>

theorem isWithinTimeWindow_midnight_crossing:
  assumes "timeToMinutes (tw_start w) = Some s"
    and "timeToMinutes (tw_end w) = Some e"
    and "e < s"
  shows "isWithinTimeWindow w now \<longleftrightarrow>
           (getHours now * 60 + getMinutes now \<le> e
              \<and> dayNames ! nat ((getDay now - 1 + 7) mod 7) \<in> set (map toLowerCase (tw_days w)))
         \<or> (getHours now * 60 + getMinutes now \<ge> s
              \<and> dayNames ! nat (getDay now) \<in> set (map toLowerCase (tw_days w)))"
  using assms by (auto simp add: isWithinTimeWindow_def Let_def)

theorem isWithinTimeWindow_midnight_crossing_witness:
  "isWithinTimeWindow nightWindow (mkInstant 4 23 30 0 0)
   \<and> isWithinTimeWindow nightWindow (mkInstant 5 2 0 0 0)
   \<and> \<not> isWithinTimeWindow nightWindow (mkInstant 5 10 0 0 0)
   \<and> \<not> isWithinTimeWindow nightWindow (mkInstant 3 23 30 0 0)"
proof -
  have s: "timeToMinutes (tw_start nightWindow) = Some 1380"
    by (simp add: nightWindow_def timeToMinutes_examples)
  have e: "timeToMinutes (tw_end nightWindow) = Some 360"
    by (simp add: nightWindow_def timeToMinutes_examples)
  have lt: "(360::int) < 1380" by simp
  note c = isWithinTimeWindow_midnight_crossing [OF s e lt]
  have d: "map toLowerCase (tw_days nightWindow) = [''monday'']"
    by (simp add: nightWindow_def toLowerCase_day_names)
  show ?thesis
    unfolding c d
    by (simp add: mkInstant_def getHours_def getMinutes_def getDay_def dayNames_def)
qed


definition mockRules :: "OverrideRule list" where
  "mockRules =
     [\<lparr>roomName = ''Living Room'', allowOverride = True,
        timeWindows = [\<lparr>tw_days = [''monday'', ''tuesday'', ''wednesday'', ''thursday'',
                                    ''friday''],
                         tw_start = ''09:00'', tw_end = ''17:00''\<rparr>]\<rparr>,
      \<lparr>roomName = ''Kitchen'', allowOverride = False, timeWindows = []\<rparr>,
      \<lparr>roomName = ''Hall'', allowOverride = True, timeWindows = []\<rparr>]"

text \<open>
  Claim C5.  For every folding of letter case, every rule list, room name and instant:
  \<open>isOverrideAllowed\<close> is true when no rule matches the room and when the
  matching rule has \<open>allowOverride = false\<close>; when the matching rule has
  \<open>allowOverride = true\<close> it is false if the rule has no window, and otherwise false
  exactly when the instant lies inside one of the rule's windows.
\<close>

theorem isOverrideAllowed_cases:
  "(matchingRule lower rules name = None \<longrightarrow> isOverrideAllowed lower rules name now)
   \<and> (\<forall>r. matchingRule lower rules name = Some r \<and> \<not> allowOverride r
          \<longrightarrow> isOverrideAllowed lower rules name now)
   \<and> (\<forall>r. matchingRule lower rules name = Some r \<and> allowOverride r \<and> timeWindows r = []
          \<longrightarrow> \<not> isOverrideAllowed lower rules name now)
   \<and> (\<forall>r. matchingRule lower rules name = Some r \<and> allowOverride r \<and> timeWindows r \<noteq> []
          \<longrightarrow> (isOverrideAllowed lower rules name now
                 \<longleftrightarrow> \<not> (\<exists>w \<in> set (timeWindows r). isWithinTimeWindow w now)))"
  by (simp add: isOverrideAllowed_def matchingRule_def Let_def list_ex_iff)

lemma matchingRule_mockRules:
  "matchingRule toLowerCase mockRules ''Bedroom'' = None"
  "matchingRule toLowerCase mockRules ''KITCHEN'' = Some (mockRules ! 1)"
  "matchingRule toLowerCase mockRules ''Hall'' = Some (mockRules ! 2)"
  "matchingRule toLowerCase mockRules ''living room'' = Some (mockRules ! 0)"
  by (simp_all add: matchingRule_def mockRules_def toLowerCase_def toLowerChar_def)

theorem isOverrideAllowed_cases_witness:
  "matchingRule toLowerCase mockRules ''Bedroom'' = None
   \<and> isOverrideAllowed toLowerCase mockRules ''Bedroom'' (mkInstant 4 10 0 0 0)
   \<and> matchingRule toLowerCase mockRules ''KITCHEN'' = Some (mockRules ! 1)
   \<and> \<not> allowOverride (mockRules ! 1)
   \<and> isOverrideAllowed toLowerCase mockRules ''KITCHEN'' (mkInstant 4 10 0 0 0)
   \<and> matchingRule toLowerCase mockRules ''Hall'' = Some (mockRules ! 2)
   \<and> allowOverride (mockRules ! 2) \<and> timeWindows (mockRules ! 2) = []
   \<and> \<not> isOverrideAllowed toLowerCase mockRules ''Hall'' (mkInstant 4 10 0 0 0)
   \<and> matchingRule toLowerCase mockRules ''living room'' = Some (mockRules ! 0)
   \<and> allowOverride (mockRules ! 0) \<and> timeWindows (mockRules ! 0) \<noteq> []
   \<and> \<not> isOverrideAllowed toLowerCase mockRules ''living room'' (mkInstant 4 10 0 0 0)
   \<and> isOverrideAllowed toLowerCase mockRules ''living room'' (mkInstant 4 18 0 0 0)"
proof -
  have w: "isWithinTimeWindow (hd (timeWindows (mockRules ! 0))) (mkInstant 4 10 0 0 0)"
          "\<not> isWithinTimeWindow (hd (timeWindows (mockRules ! 0))) (mkInstant 4 18 0 0 0)"
    by (simp_all add: mockRules_def isWithinTimeWindow_def timeToMinutes_examples
          toLowerCase_def toLowerChar_def mkInstant_def getHours_def getMinutes_def
          getDay_def dayNames_def)
  have tw: "timeWindows (mockRules ! 0) = [hd (timeWindows (mockRules ! 0))]"
    by (simp add: mockRules_def)
  have f: "allowOverride (mockRules ! 0)" "timeWindows (mockRules ! 0) \<noteq> []"
     "\<not> allowOverride (mockRules ! 1)"
     "allowOverride (mockRules ! 2)" "timeWindows (mockRules ! 2) = []"
    by (simp_all add: mockRules_def)
  have a: "isOverrideAllowed toLowerCase mockRules ''Bedroom'' (mkInstant 4 10 0 0 0)"
    using isOverrideAllowed_cases [of toLowerCase mockRules "''Bedroom''" "mkInstant 4 10 0 0 0"]
      matchingRule_mockRules(1) by blast
  have b: "isOverrideAllowed toLowerCase mockRules ''KITCHEN'' (mkInstant 4 10 0 0 0)"
    using isOverrideAllowed_cases [of toLowerCase mockRules "''KITCHEN''" "mkInstant 4 10 0 0 0"]
      matchingRule_mockRules(2) f(3) by blast
  have c: "\<not> isOverrideAllowed toLowerCase mockRules ''Hall'' (mkInstant 4 10 0 0 0)"
    using isOverrideAllowed_cases [of toLowerCase mockRules "''Hall''" "mkInstant 4 10 0 0 0"]
      matchingRule_mockRules(3) f(4,5) by blast
  have "\<exists>w \<in> set (timeWindows (mockRules ! 0)). isWithinTimeWindow w (mkInstant 4 10 0 0 0)"
    using w(1) tw by (metis list.set_intros(1))
  then have d: "\<not> isOverrideAllowed toLowerCase mockRules ''living room'' (mkInstant 4 10 0 0 0)"
    using isOverrideAllowed_cases [of toLowerCase mockRules "''living room''" "mkInstant 4 10 0 0 0"]
      matchingRule_mockRules(4) f(1,2) by blast
  have "\<not> (\<exists>w \<in> set (timeWindows (mockRules ! 0)). isWithinTimeWindow w (mkInstant 4 18 0 0 0))"
    using w(2) tw by (metis empty_iff empty_set set_ConsD)
  then have e: "isOverrideAllowed toLowerCase mockRules ''living room'' (mkInstant 4 18 0 0 0)"
    using isOverrideAllowed_cases [of toLowerCase mockRules "''living room''" "mkInstant 4 18 0 0 0"]
      matchingRule_mockRules(4) f(1,2) by blast
  show ?thesis using a b c d e matchingRule_mockRules f by blast
qed

section \<open>lib/retry.ts: retry with exponential backoff\<close>

text \<open>
  A thrown value is an \<open>Error\<close> object with its message, or any other value with its
  \<open>String(...)\<close> rendering.  An asynchronous call resolves to a value or rejects with a
  thrown value.
\<close>

datatype thrown = ErrorObj string | OtherValue string

datatype 'a outcome = Resolved 'a | Rejected thrown

fun startsWith :: "string \<Rightarrow> string \<Rightarrow> bool" where
  "startsWith [] s = True"
| "startsWith (p # ps) [] = False"
| "startsWith (p # ps) (c # cs) = (p = c \<and> startsWith ps cs)"

text \<open>\<open>str_includes sub s\<close> is \<open>s.includes(sub)\<close>.\<close>

fun str_includes :: "string \<Rightarrow> string \<Rightarrow> bool" where
  "str_includes sub [] = (sub = [])"
| "str_includes sub (c # cs) = (startsWith sub (c # cs) \<or> str_includes sub cs)"

definition isRateLimit :: "thrown \<Rightarrow> bool" where
  "isRateLimit error =
     (case error of
        ErrorObj message \<Rightarrow> str_includes ''429'' message \<or> str_includes ''TooManyRequests'' message
      | OtherValue _ \<Rightarrow> False)"

text \<open>
  A run of \<open>retryWithBackoff\<close> is observed as its outcome, the delays it waited (in
  order) and the number of times it invoked \<open>fn\<close>.  The wrapped operation is given by
  the outcome of each of its invocations, numbered from 0; the loop invokes it once per
  iteration, so iteration \<open>attempt\<close> sees invocation \<open>attempt\<close>.  \<open>maxRetries\<close> is an
  integer; when it is negative the loop body never runs and the final
  \<open>throw lastError\<close> throws \<open>undefined\<close>.
\<close>

record 'a retry_run =
  rr_outcome :: "'a outcome"
  rr_delays :: "int list"
  rr_calls :: nat

function retryLoop :: "(nat \<Rightarrow> 'a outcome) \<Rightarrow> int \<Rightarrow> int \<Rightarrow> nat \<Rightarrow> 'a retry_run" where
  "retryLoop fn maxRetries baseDelay attempt =
     (if int attempt \<le> maxRetries then
        (case fn attempt of
           Resolved v \<Rightarrow> \<lparr>rr_outcome = Resolved v, rr_delays = [], rr_calls = 1\<rparr>
         | Rejected error \<Rightarrow>
             if int attempt = maxRetries \<or> \<not> isRateLimit error then
               \<lparr>rr_outcome = Rejected error, rr_delays = [], rr_calls = 1\<rparr>
             else
               (let delayMs = baseDelay * 2 ^ attempt;
                    rest = retryLoop fn maxRetries baseDelay (attempt + 1)
                in rest\<lparr>rr_delays := delayMs # rr_delays rest,
                        rr_calls := rr_calls rest + 1\<rparr>))
      else \<lparr>rr_outcome = Rejected (OtherValue ''undefined''), rr_delays = [], rr_calls = 0\<rparr>)"
  by pat_completeness auto
termination
  by (relation "measure (\<lambda>(fn, maxRetries, baseDelay, attempt). nat (maxRetries + 1 - int attempt))")
    auto

definition retryWithBackoff :: "(nat \<Rightarrow> 'a outcome) \<Rightarrow> int \<Rightarrow> int \<Rightarrow> 'a retry_run" where
  "retryWithBackoff fn maxRetries baseDelay = retryLoop fn maxRetries baseDelay 0"

text \<open>An invocation ends the run when it resolves, when it rejects with something that is
  not a rate-limit signal, or when it is invocation number \<open>maxRetries\<close>.\<close>

definition endsRun :: "(nat \<Rightarrow> 'a outcome) \<Rightarrow> int \<Rightarrow> nat \<Rightarrow> bool" where
  "endsRun fn maxRetries k =
     (case fn k of
        Resolved _ \<Rightarrow> True
      | Rejected error \<Rightarrow> \<not> isRateLimit error \<or> int k = maxRetries)"

definition rateLimited :: "(nat \<Rightarrow> 'a outcome) \<Rightarrow> nat \<Rightarrow> bool" where
  "rateLimited fn i = (case fn i of Resolved _ \<Rightarrow> False | Rejected error \<Rightarrow> isRateLimit error)"

declare retryLoop.simps [simp del]

lemma retryLoop_from:
  assumes "\<And>i. a \<le> i \<Longrightarrow> i < k \<Longrightarrow> rateLimited fn i"
    and "int k \<le> maxRetries"
    and "endsRun fn maxRetries k"
    and "a \<le> k"
  shows "retryLoop fn maxRetries baseDelay a =
           \<lparr>rr_outcome = fn k,
            rr_delays = map (\<lambda>i. baseDelay * 2 ^ i) [a..<k],
            rr_calls = Suc k - a\<rparr>"
  using assms
proof (induction "k - a" arbitrary: a)
  case 0
  then have ak: "a = k" by simp
  show ?case
    using "0.prems"(2,3) unfolding ak
    by (subst retryLoop.simps) (auto simp add: endsRun_def split: outcome.splits)
next
  case (Suc n)
  then have lt: "a < k" by simp
  then have rl: "rateLimited fn a" using Suc.prems(1) by simp
  then obtain e where e: "fn a = Rejected e" "isRateLimit e"
    by (auto simp add: rateLimited_def split: outcome.splits)
  have le: "int a \<le> maxRetries" "int a \<noteq> maxRetries"
    using lt Suc.prems(2) by simp_all
  have ih: "retryLoop fn maxRetries baseDelay (a + 1) =
           \<lparr>rr_outcome = fn k,
            rr_delays = map (\<lambda>i. baseDelay * 2 ^ i) [a + 1..<k],
            rr_calls = Suc k - (a + 1)\<rparr>"
    using Suc.hyps(1) [of "a + 1"] Suc.hyps(2) Suc.prems lt by simp
  have up: "[a..<k] = a # [a + 1..<k]"
    using lt by (simp add: upt_conv_Cons)
  show ?case
    using e le ih lt unfolding up
    by (subst retryLoop.simps) (simp add: Let_def Suc_diff_le)
qed

text \<open>
  Claim C7.  Let invocation \<open>k\<close> (within the budget of \<open>maxRetries + 1\<close> invocations)
  be the first one that does not fail with a rate-limit signal, or the last one of the
  budget.  Then the run ends with that invocation's outcome, so its error propagates
  with no further invocation and no further delay; and each earlier, rate-limited attempt
  \<open>i\<close> was followed by a wait of \<open>baseDelay * 2 ^ i\<close>.
\<close>

theorem retryWithBackoff_propagates:
  assumes "\<forall>i<k. rateLimited fn i"
    and "int k \<le> maxRetries"
    and "fn k = Rejected error"
    and "\<not> isRateLimit error \<or> int k = maxRetries"
  shows "retryWithBackoff fn maxRetries baseDelay =
           \<lparr>rr_outcome = Rejected error,
            rr_delays = map (\<lambda>i. baseDelay * 2 ^ i) [0..<k],
            rr_calls = k + 1\<rparr>"
proof -
  have "endsRun fn maxRetries k"
    using assms(3,4) by (simp add: endsRun_def)
  then show ?thesis
    using retryLoop_from [of 0 k fn maxRetries baseDelay] assms(1,2,3)
    by (simp add: retryWithBackoff_def)
qed

lemma isRateLimit_examples:
  "\<not> isRateLimit (ErrorObj ''boom'')"
  "isRateLimit (ErrorObj ''HTTP 429'')"
  "isRateLimit (ErrorObj ''TooManyRequests'')"
  "\<not> isRateLimit (OtherValue ''429'')"
  by (simp_all add: isRateLimit_def)

theorem retryWithBackoff_propagates_witness:
  "retryWithBackoff (\<lambda>i. Rejected (ErrorObj ''boom'') :: unit outcome) 3 1000
     = \<lparr>rr_outcome = Rejected (ErrorObj ''boom''), rr_delays = [], rr_calls = 1\<rparr>
   \<and> retryWithBackoff (\<lambda>i. if i < 2 then Rejected (ErrorObj ''HTTP 429'')
                             else Rejected (ErrorObj ''boom'') :: unit outcome) 3 1000
     = \<lparr>rr_outcome = Rejected (ErrorObj ''boom''), rr_delays = [1000, 2000], rr_calls = 3\<rparr>
   \<and> retryWithBackoff (\<lambda>i. Rejected (ErrorObj ''HTTP 429'') :: unit outcome) 3 1000
     = \<lparr>rr_outcome = Rejected (ErrorObj ''HTTP 429''), rr_delays = [1000, 2000, 4000],
        rr_calls = 4\<rparr>"
proof -
  have u3: "[0..<3] = [0, 1, 2]" and u2: "[0..<2] = [0, 1]"
    by (simp_all add: upt_rec)
  have a: "retryWithBackoff (\<lambda>i. Rejected (ErrorObj ''boom'') :: unit outcome) 3 1000
     = \<lparr>rr_outcome = Rejected (ErrorObj ''boom''), rr_delays = [], rr_calls = 1\<rparr>"
    using retryWithBackoff_propagates
            [of 0 "\<lambda>i. Rejected (ErrorObj ''boom'')" 3 "ErrorObj ''boom''" 1000]
          isRateLimit_examples
    by simp
  have b: "retryWithBackoff (\<lambda>i. if i < 2 then Rejected (ErrorObj ''HTTP 429'')
                             else Rejected (ErrorObj ''boom'') :: unit outcome) 3 1000
     = \<lparr>rr_outcome = Rejected (ErrorObj ''boom''), rr_delays = [1000, 2000], rr_calls = 3\<rparr>"
    using retryWithBackoff_propagates
            [of 2 "\<lambda>i. if i < 2 then Rejected (ErrorObj ''HTTP 429'')
                             else Rejected (ErrorObj ''boom'')" 3 "ErrorObj ''boom''" 1000]
          isRateLimit_examples
    by (simp add: rateLimited_def u2)
  have c: "retryWithBackoff (\<lambda>i. Rejected (ErrorObj ''HTTP 429'') :: unit outcome) 3 1000
     = \<lparr>rr_outcome = Rejected (ErrorObj ''HTTP 429''), rr_delays = [1000, 2000, 4000],
        rr_calls = 4\<rparr>"
    using retryWithBackoff_propagates
            [of 3 "\<lambda>i. Rejected (ErrorObj ''HTTP 429'')" 3 "ErrorObj ''HTTP 429''" 1000]
          isRateLimit_examples
    by (simp add: rateLimited_def u3)
  show ?thesis using a b c by blast
qed

section \<open>plugins/evohome: the authentication manager\<close>

text \<open>Decimal rendering of a number inside a template string.\<close>

fun showNat :: "nat \<Rightarrow> string" where
  "showNat n =
     (if n < 10 then [''0123456789'' ! n]
      else showNat (n div 10) @ [''0123456789'' ! (n mod 10)])"

declare showNat.simps [simp del]

record SessionCache =
  userId :: string
  sessionId :: string

text \<open>\<open>expiresAt\<close> is a \<open>Date\<close>, which may be invalid.\<close>

record TokenCache =
  token :: string
  expiresAt :: jsnum

record AuthManager =
  cachedV2Session :: "SessionCache option"
  cachedV1Token :: "TokenCache option"
  lastAuthFailure :: "instant option"
  authFailureCount :: nat

definition newAuthManager :: AuthManager where
  "newAuthManager = \<lparr>cachedV2Session = None, cachedV1Token = None,
                      lastAuthFailure = None, authFailureCount = 0\<rparr>"

definition MIN_AUTH_RETRY_DELAY :: int where
  "MIN_AUTH_RETRY_DELAY = 30000"

text \<open>
  \<open>MIN_AUTH_RETRY_DELAY * Math.pow(2, Math.min(authFailureCount - 1, 3))\<close>.  The counter
  is a natural number; at 0 the exponent is \<open>-1\<close> and the product is 15000.
\<close>

definition requiredDelay :: "nat \<Rightarrow> int" where
  "requiredDelay failureCount =
     (if failureCount = 0 then MIN_AUTH_RETRY_DELAY div 2
      else MIN_AUTH_RETRY_DELAY * 2 ^ min (failureCount - 1) 3)"

definition getAuthRetryDelay :: "AuthManager \<Rightarrow> instant \<Rightarrow> int" where
  "getAuthRetryDelay am now =
     (case lastAuthFailure am of
        None \<Rightarrow> 0
      | Some failedAt \<Rightarrow>
          (let timeSinceLastFailure = now - failedAt
           in if timeSinceLastFailure < requiredDelay (authFailureCount am)
              then requiredDelay (authFailureCount am) - timeSinceLastFailure
              else 0))"

text \<open>
  The remote authenticate calls are opaque: a call is given by its response.  A V2
  failure carries the HTTP status and the \<open>message\<close> of the error body when the body
  parses and has one; a V1 success carries \<open>access_token\<close> and \<open>expires_in\<close> (seconds).
\<close>

datatype v2_response = V2Ok string string | V2Fail nat "string option"

datatype v1_response = V1Ok string int | V1Fail nat

text \<open>
  A run of a getter is observed as its result (\<open>Inl\<close> what it throws), the manager
  afterwards, and the instants at which it issued a remote authenticate call.  Time is
  explicit: \<open>now\<close> is the clock (\<open>Date.now()\<close>) when the getter is entered, \<open>slack\<close>
  the milliseconds by which the timer and the awaited log writes delay the request beyond
  the wait handed to \<open>setTimeout\<close>, \<open>latency\<close> the milliseconds until the response
  arrives.  Log lines are left out, except where building one can throw; so is the
  optional statistics tracker.
\<close>

record 'a auth_run =
  ar_result :: "thrown + 'a"
  ar_state :: AuthManager
  ar_authCalls :: "instant list"

definition getV2Session ::
  "AuthManager \<Rightarrow> bool \<Rightarrow> instant \<Rightarrow> nat \<Rightarrow> nat \<Rightarrow> v2_response \<Rightarrow> SessionCache auth_run" where
  "getV2Session am tempConfig now slack latency response =
     (case (if tempConfig then None else cachedV2Session am) of
        Some cached \<Rightarrow> \<lparr>ar_result = Inr cached, ar_state = am, ar_authCalls = []\<rparr>
      | None \<Rightarrow>
          (let waitTime = getAuthRetryDelay am now;
               callTime = now + (if waitTime > 0 then effectiveDelay (Some waitTime) else 0)
                            + int slack;
               doneTime = callTime + int latency
           in case response of
                V2Fail status bodyMessage \<Rightarrow>
                  (let errorMessage =
                         (case bodyMessage of
                            Some m \<Rightarrow> if m \<noteq> [] then m
                                      else ''HTTP error! status: '' @ showNat status
                          | None \<Rightarrow> ''HTTP error! status: '' @ showNat status)
                   in \<lparr>ar_result = Inl (ErrorObj errorMessage),
                       ar_state = am\<lparr>lastAuthFailure := Some doneTime,
                                      authFailureCount := authFailureCount am + 1\<rparr>,
                       ar_authCalls = [callTime]\<rparr>)
              | V2Ok uid sid \<Rightarrow>
                  (let reset = am\<lparr>authFailureCount := 0, lastAuthFailure := None\<rparr>;
                       session = \<lparr>userId = uid, sessionId = sid\<rparr>
                   in \<lparr>ar_result = Inr session,
                       ar_state = (if \<not> tempConfig then reset\<lparr>cachedV2Session := Some session\<rparr>
                                   else reset),
                       ar_authCalls = [callTime]\<rparr>)))"

definition rangeError :: thrown where
  "rangeError = ErrorObj ''RangeError: Invalid time value''"

text \<open>
  On success the token is cached first, with \<open>new Date(Date.now() + (expires_in - 300) *
  1000)\<close>, and the log line that follows renders \<open>expiresAt.toISOString()\<close>: with an
  invalid date it throws, after the cache was written and before the token is returned.
\<close>

definition getV1Token ::
  "AuthManager \<Rightarrow> instant \<Rightarrow> nat \<Rightarrow> v1_response \<Rightarrow> string auth_run" where
  "getV1Token am now latency response =
     (case (case cachedV1Token am of
              Some cached \<Rightarrow>
                (case expiresAt cached of
                   Some e \<Rightarrow> if e > now then Some cached else None
                 | None \<Rightarrow> None)
            | None \<Rightarrow> None) of
        Some cached \<Rightarrow> \<lparr>ar_result = Inr (token cached), ar_state = am, ar_authCalls = []\<rparr>
      | None \<Rightarrow>
          (case response of
             V1Fail status \<Rightarrow>
               \<lparr>ar_result = Inl (ErrorObj (''V1 authentication failed: '' @ showNat status)),
                ar_state = am, ar_authCalls = [now]\<rparr>
           | V1Ok access_token expires_in \<Rightarrow>
               (let expiry = newDate ((now + int latency) + (expires_in - 300) * 1000);
                    cached = am\<lparr>cachedV1Token :=
                                   Some \<lparr>token = access_token, expiresAt = expiry\<rparr>\<rparr>
                in case expiry of
                     None \<Rightarrow>
                       \<lparr>ar_result = Inl rangeError, ar_state = cached, ar_authCalls = [now]\<rparr>
                   | Some _ \<Rightarrow>
                       \<lparr>ar_result = Inr access_token, ar_state = cached,
                        ar_authCalls = [now]\<rparr>)))"

definition clearV1Token :: "AuthManager \<Rightarrow> AuthManager" where
  "clearV1Token am = am\<lparr>cachedV1Token := None\<rparr>"

definition clearV2Session :: "AuthManager \<Rightarrow> AuthManager" where
  "clearV2Session am = am\<lparr>cachedV2Session := None\<rparr>"

text \<open>The cached token is usable: there is one and the instant is strictly before its
  \<open>expiresAt\<close>.\<close>

definition tokenUsable :: "AuthManager \<Rightarrow> instant \<Rightarrow> bool" where
  "tokenUsable am now =
     (case cachedV1Token am of
        Some cached \<Rightarrow> (case expiresAt cached of Some e \<Rightarrow> now < e | None \<Rightarrow> False)
      | None \<Rightarrow> False)"

text \<open>The manager after three failed V2 authentications in a row, each answered at once:
  at 1000, 40000 and 110000 ms.\<close>

definition afterThreeFailures :: AuthManager where
  "afterThreeFailures =
     (let a = ar_state (getV2Session newAuthManager False 1000 0 0 (V2Fail 401 None));
          b = ar_state (getV2Session a False 40000 0 0 (V2Fail 401 None))
      in ar_state (getV2Session b False 110000 0 0 (V2Fail 401 None)))"

lemma afterThreeFailures_eq:
  "afterThreeFailures = \<lparr>cachedV2Session = None, cachedV1Token = None,
                          lastAuthFailure = Some 110000, authFailureCount = 3\<rparr>"
  by (simp add: afterThreeFailures_def getV2Session_def newAuthManager_def
        getAuthRetryDelay_def requiredDelay_def MIN_AUTH_RETRY_DELAY_def Let_def)

lemma getV1Token_keeps_failure_tracking:
  "lastAuthFailure (ar_state (getV1Token am now latency response)) = lastAuthFailure am
   \<and> authFailureCount (ar_state (getV1Token am now latency response)) = authFailureCount am"
  by (simp add: getV1Token_def Let_def split: option.splits v1_response.splits)

text \<open>A failure on record always comes with a positive counter: the two fields are only
  written together, by a failed or a successful V2 authentication.\<close>

definition failureTrackingOk :: "AuthManager \<Rightarrow> bool" where
  "failureTrackingOk am = (lastAuthFailure am = None \<or> 1 \<le> authFailureCount am)"

lemma failureTrackingOk_kept:
  "failureTrackingOk newAuthManager"
  "failureTrackingOk am \<Longrightarrow>
     failureTrackingOk (ar_state (getV2Session am tempConfig now slack latency v2))"
  "failureTrackingOk am \<Longrightarrow> failureTrackingOk (ar_state (getV1Token am now latency v1))"
  "failureTrackingOk am \<Longrightarrow> failureTrackingOk (clearV1Token am)"
  "failureTrackingOk am \<Longrightarrow> failureTrackingOk (clearV2Session am)"
  by (auto simp add: failureTrackingOk_def newAuthManager_def getV2Session_def getV1Token_def
        clearV1Token_def clearV2Session_def Let_def
        split: option.splits v2_response.splits v1_response.splits if_splits)

text \<open>The manager after three failed V1 authentications in a row, at 1000, 2000 and
  3000 ms.\<close>

definition afterThreeV1Failures :: AuthManager where
  "afterThreeV1Failures =
     (let a = ar_state (getV1Token newAuthManager 1000 0 (V1Fail 401));
          b = ar_state (getV1Token a 2000 0 (V1Fail 401))
      in ar_state (getV1Token b 3000 0 (V1Fail 401)))"

text \<open>
  Claim C3.  Before every authentication attempt, on the V1 token path as on the V2
  session path, the remote call is to be held back until \<open>30 s * 2 ^ min (n - 1) 3\<close>
  have passed since the last failure.  \<open>getV1Token\<close> does not do it: it neither reads
  nor writes the failure tracking.  Three V1 failures in a row leave no failure on
  record, and the fourth attempt, entered one second after the third failure, issues its
  authenticate call at once.  After three V2 failures, the last at 110000 ms, a
  \<open>getV1Token\<close> entered at 111000 ms issues its call at 111000 ms, although only 1000 ms
  of the required 120000 ms have passed.
\<close>

theorem getV1Token_ignores_backoff:
  "afterThreeV1Failures = newAuthManager
   \<and> ar_authCalls (getV1Token afterThreeV1Failures 4000 0 (V1Fail 401)) = [4000]
   \<and> 4000 - 3000 < MIN_AUTH_RETRY_DELAY * 2 ^ min (3 - 1) (3::nat)
   \<and> lastAuthFailure afterThreeFailures = Some 110000
   \<and> authFailureCount afterThreeFailures = 3
   \<and> 111000 - 110000 < MIN_AUTH_RETRY_DELAY * 2 ^ min (3 - 1) (3::nat)
   \<and> ar_authCalls (getV1Token afterThreeFailures 111000 0 (V1Fail 401)) = [111000]"
  by (simp add: afterThreeV1Failures_def afterThreeFailures_eq getV1Token_def
        newAuthManager_def MIN_AUTH_RETRY_DELAY_def)

text \<open>
  The V2 session path does hold the call back.  While the clock has not gone back behind
  the recorded failure, \<open>getV2Session\<close> issues the remote authenticate call no earlier
  than \<open>30 s * 2 ^ min (authFailureCount - 1) 3\<close> after that failure; with three
  failures on record that is 120 seconds.
\<close>

lemma requiredDelay_le:
  "requiredDelay n \<le> 240000"
proof -
  have "(2::int) ^ min (n - 1) 3 \<le> 2 ^ 3"
    by (rule power_increasing) simp_all
  then show ?thesis
    by (simp add: requiredDelay_def MIN_AUTH_RETRY_DELAY_def)
qed

lemma getV2Session_holds_back:
  assumes "lastAuthFailure am = Some failedAt"
    and "1 \<le> authFailureCount am"
    and "failedAt \<le> now"
    and "t \<in> set (ar_authCalls (getV2Session am tempConfig now slack latency response))"
  shows "failedAt + 30000 * 2 ^ min (authFailureCount am - 1) 3 \<le> t
         \<and> (authFailureCount am = 3 \<longrightarrow> failedAt + 120000 \<le> t)"
proof -
  have rd: "requiredDelay (authFailureCount am) = 30000 * 2 ^ min (authFailureCount am - 1) 3"
    using assms(2) by (simp add: requiredDelay_def MIN_AUTH_RETRY_DELAY_def)
  define w where "w = getAuthRetryDelay am now"
  have wle: "w \<le> 240000"
    using assms(1,3) requiredDelay_le [of "authFailureCount am"]
    by (simp add: w_def getAuthRetryDelay_def Let_def)
  then have ed: "w > 0 \<Longrightarrow> effectiveDelay (Some w) = w"
    by (simp add: effectiveDelay_def)
  have w: "failedAt + requiredDelay (authFailureCount am) \<le> now + (if w > 0 then w else 0)"
    using assms(1) by (simp add: w_def getAuthRetryDelay_def Let_def)
  have "t = now + (if w > 0 then effectiveDelay (Some w) else 0) + int slack"
    using assms(4) unfolding getV2Session_def w_def
    by (auto simp add: Let_def split: option.splits v2_response.splits if_splits)
  then have "t = now + (if w > 0 then w else 0) + int slack"
    using ed by simp
  then have main: "failedAt + 30000 * 2 ^ min (authFailureCount am - 1) 3 \<le> t"
    using w rd by simp
  moreover have "authFailureCount am = 3 \<longrightarrow> failedAt + 120000 \<le> t"
    using main by auto
  ultimately show ?thesis by simp
qed

lemma getV2Session_fourth_attempt:
  "ar_authCalls (getV2Session afterThreeFailures False 111000 0 0 (V2Ok ''u'' ''s''))
     = [230000]"
  by (simp add: afterThreeFailures_eq getV2Session_def getAuthRetryDelay_def
        requiredDelay_def MIN_AUTH_RETRY_DELAY_def effectiveDelay_def Let_def)

text \<open>
  Claim C6.  \<open>getV1Token\<close> answers from the cache, without any authenticate call,
  exactly when there is a cached token and the instant is strictly before its
  \<open>expiresAt\<close>; otherwise it issues exactly one authenticate call, and when that call
  succeeds it caches the fresh token with
  \<open>expiresAt = (time of the response) + (expires_in - 300) * 1000\<close> and returns it.
  (That is so for every expiry a \<open>Date\<close> can hold; beyond, the token is cached with an
  invalid date and a \<open>RangeError\<close> is thrown instead of the token.)
\<close>

theorem getV1Token_cache:
  "(tokenUsable am now \<longleftrightarrow> ar_authCalls (getV1Token am now latency response) = [])
   \<and> (\<forall>cached e. cachedV1Token am = Some cached \<and> expiresAt cached = Some e \<and> now < e \<longrightarrow>
         getV1Token am now latency response
           = \<lparr>ar_result = Inr (token cached), ar_state = am, ar_authCalls = []\<rparr>)
   \<and> (\<not> tokenUsable am now \<longrightarrow>
         length (ar_authCalls (getV1Token am now latency response)) = 1
         \<and> (\<forall>tok lifetime.
               response = V1Ok tok lifetime
               \<and> inDateRange (now + int latency + (lifetime - 300) * 1000) \<longrightarrow>
               ar_result (getV1Token am now latency response) = Inr tok
               \<and> cachedV1Token (ar_state (getV1Token am now latency response))
                   = Some \<lparr>token = tok,
                           expiresAt = Some (now + int latency + (lifetime - 300) * 1000)\<rparr>)
         \<and> (\<forall>tok lifetime.
               response = V1Ok tok lifetime
               \<and> \<not> inDateRange (now + int latency + (lifetime - 300) * 1000) \<longrightarrow>
               ar_result (getV1Token am now latency response) = Inl rangeError
               \<and> cachedV1Token (ar_state (getV1Token am now latency response))
                   = Some \<lparr>token = tok, expiresAt = None\<rparr>))"
  by (auto simp add: getV1Token_def tokenUsable_def newDate_def Let_def
        split: option.splits v1_response.splits)

definition cachedManager :: AuthManager where
  "cachedManager =
     newAuthManager\<lparr>cachedV1Token := Some \<lparr>token = ''old'', expiresAt = Some 5001\<rparr>\<rparr>"

theorem getV1Token_cache_witness:
  "tokenUsable cachedManager 5000
   \<and> getV1Token cachedManager 5000 20 (V1Ok ''new'' 3600)
       = \<lparr>ar_result = Inr ''old'', ar_state = cachedManager, ar_authCalls = []\<rparr>
   \<and> \<not> tokenUsable cachedManager 5001
   \<and> length (ar_authCalls (getV1Token cachedManager 5001 20 (V1Ok ''new'' 3600))) = 1
   \<and> inDateRange (5001 + int 20 + (3600 - 300) * 1000)
   \<and> ar_result (getV1Token cachedManager 5001 20 (V1Ok ''new'' 3600)) = Inr ''new''
   \<and> cachedV1Token (ar_state (getV1Token cachedManager 5001 20 (V1Ok ''new'' 3600)))
       = Some \<lparr>token = ''new'', expiresAt = Some 3305021\<rparr>
   \<and> \<not> inDateRange (5001 + int 20 + (10000000000000000 - 300) * 1000)
   \<and> ar_result (getV1Token cachedManager 5001 20 (V1Ok ''new'' 10000000000000000))
       = Inl rangeError
   \<and> cachedV1Token (ar_state (getV1Token cachedManager 5001 20 (V1Ok ''new'' 10000000000000000)))
       = Some \<lparr>token = ''new'', expiresAt = None\<rparr>"
proof -
  have u: "tokenUsable cachedManager 5000" "\<not> tokenUsable cachedManager 5001"
    and c: "cachedV1Token cachedManager = Some \<lparr>token = ''old'', expiresAt = Some 5001\<rparr>"
    by (simp_all add: tokenUsable_def cachedManager_def)
  have r: "inDateRange (5001 + int 20 + (3600 - 300) * 1000)"
    "\<not> inDateRange (5001 + int 20 + (10000000000000000 - 300) * 1000)"
    by (simp_all add: inDateRange_def)
  have a: "getV1Token cachedManager 5000 20 (V1Ok ''new'' 3600)
       = \<lparr>ar_result = Inr ''old'', ar_state = cachedManager, ar_authCalls = []\<rparr>"
    using getV1Token_cache [of cachedManager 5000 20 "V1Ok ''new'' 3600"] c by simp
  have b: "length (ar_authCalls (getV1Token cachedManager 5001 20 (V1Ok ''new'' 3600))) = 1
   \<and> ar_result (getV1Token cachedManager 5001 20 (V1Ok ''new'' 3600)) = Inr ''new''
   \<and> cachedV1Token (ar_state (getV1Token cachedManager 5001 20 (V1Ok ''new'' 3600)))
       = Some \<lparr>token = ''new'', expiresAt = Some 3305021\<rparr>"
    using getV1Token_cache [of cachedManager 5001 20 "V1Ok ''new'' 3600"] u(2) r(1) by simp
  have d: "ar_result (getV1Token cachedManager 5001 20 (V1Ok ''new'' 10000000000000000))
       = Inl rangeError
   \<and> cachedV1Token (ar_state (getV1Token cachedManager 5001 20 (V1Ok ''new'' 10000000000000000)))
       = Some \<lparr>token = ''new'', expiresAt = None\<rparr>"
    using getV1Token_cache [of cachedManager 5001 20 "V1Ok ''new'' 10000000000000000"]
      u(2) r(2) by simp
  show ?thesis using u a b d r by blast
qed

section \<open>plugins/evohome/services/device-cache-service.ts: the device cache\<close>

text \<open>
  The raw device records of the remote API.  A property that may be missing is an
  \<open>option\<close>; temperatures are rationals (they are only copied and compared).  The marker
  \<open>_optimisticUpdateTime\<close> sits on a heat setpoint (written by \<open>updateDeviceState\<close>) and
  on the changeable values of a hot-water device (written by \<open>updateDHWState\<close>).
\<close>

record HeatSetpoint =
  hs_value :: rat
  hs_status :: string
  hs_optimisticUpdateTime :: "instant option"

record ChangeableValues =
  heatSetpoint :: "HeatSetpoint option"
  cv_mode :: "string option"
  cv_state :: "string option"
  cv_status :: "string option"
  cv_nextTime :: "string option"
  cv_optimisticUpdateTime :: "instant option"

record Thermostat =
  indoorTemperature :: "rat option"
  indoorTemperatureStatus :: "string option"
  changeableValues :: "ChangeableValues option"

record Device =
  dev_name :: "string option"
  thermostatModelType :: string
  thermostat :: "Thermostat option"
  deviceID :: "int option"
  gatewayId :: "int option"

record Switchpoint =
  sp_timeOfDay :: "string option"
  sp_TimeOfDay :: "string option"
  sp_heatSetpoint :: "rat option"
  sp_dhwState :: "string option"

datatype day_of_week = DayNumber int | DayName string

record DaySchedule =
  dayOfWeek :: day_of_week
  switchpoints :: "Switchpoint list option"

record ZoneSchedule =
  zoneId :: string
  zs_name :: string
  scheduleId :: "string option"
  dailySchedules :: "DaySchedule list"

record DeviceCacheService =
  deviceCache :: "Device list option"
  zoneSchedules :: "ZoneSchedule list"

definition typeError :: thrown where
  "typeError = ErrorObj ''TypeError: Cannot read properties of undefined''"

text \<open>\<open>device.thermostat?.changeableValues?.heatSetpoint\<close>\<close>

definition heatSetpointOf :: "Device \<Rightarrow> HeatSetpoint option" where
  "heatSetpointOf device =
     (case thermostat device of
        None \<Rightarrow> None
      | Some th \<Rightarrow> (case changeableValues th of None \<Rightarrow> None | Some cv \<Rightarrow> heatSetpoint cv))"

text \<open>\<open>device.thermostat.changeableValues.heatSetpoint = sp\<close>, on a device that has both
  objects (otherwise the device is returned as it is; the callers below check first).\<close>

definition setHeatSetpoint :: "Device \<Rightarrow> HeatSetpoint \<Rightarrow> Device" where
  "setHeatSetpoint device sp =
     (case thermostat device of
        None \<Rightarrow> device
      | Some th \<Rightarrow>
          (case changeableValues th of
             None \<Rightarrow> device
           | Some cv \<Rightarrow>
               device\<lparr>thermostat := Some (th\<lparr>changeableValues :=
                                              Some (cv\<lparr>heatSetpoint := Some sp\<rparr>)\<rparr>)\<rparr>))"

text \<open>A marker is truthy when it is present and not 0.\<close>

definition truthyTime :: "instant option \<Rightarrow> bool" where
  "truthyTime m = (case m of None \<Rightarrow> False | Some t \<Rightarrow> t \<noteq> 0)"

text \<open>The body of the \<open>forEach\<close> of \<open>setDevices\<close>, returning the incoming device as the
  loop leaves it.\<close>

definition mergeDevice :: "Device list \<Rightarrow> instant \<Rightarrow> Device \<Rightarrow> Device" where
  "mergeDevice cache now newDevice =
     (case find (\<lambda>d. deviceID d = deviceID newDevice) cache of
        None \<Rightarrow> newDevice
      | Some existingDevice \<Rightarrow>
          (case (heatSetpointOf existingDevice, heatSetpointOf newDevice) of
             (Some existingSetpoint, Some newSetpoint) \<Rightarrow>
               if hs_value existingSetpoint \<noteq> hs_value newSetpoint
                  \<and> truthyTime (hs_optimisticUpdateTime existingSetpoint)
               then
                 (let timeSinceUpdate =
                        now - (case hs_optimisticUpdateTime existingSetpoint of
                                 Some t \<Rightarrow> t | None \<Rightarrow> 0)
                  in if timeSinceUpdate < 5000 then setHeatSetpoint newDevice existingSetpoint
                     else newDevice)
               else newDevice
           | _ \<Rightarrow> newDevice))"

definition setDevices :: "DeviceCacheService \<Rightarrow> Device list \<Rightarrow> instant \<Rightarrow> DeviceCacheService" where
  "setDevices svc devices now =
     (case deviceCache svc of
        None \<Rightarrow> svc\<lparr>deviceCache := Some devices\<rparr>
      | Some cache \<Rightarrow> svc\<lparr>deviceCache := Some (map (mergeDevice cache now) devices)\<rparr>)"

text \<open>In-place update of the first element that satisfies a predicate: the object that
  \<open>Array.prototype.find\<close> returned.\<close>

fun updateFirst :: "('a \<Rightarrow> bool) \<Rightarrow> ('a \<Rightarrow> 'a) \<Rightarrow> 'a list \<Rightarrow> 'a list" where
  "updateFirst P f [] = []"
| "updateFirst P f (x # xs) = (if P x then f x # xs else x # updateFirst P f xs)"

subsection \<open>The scheduled temperature of a zone\<close>

definition showInt :: "int \<Rightarrow> string" where
  "showInt i = (if i < 0 then ''-'' @ showNat (nat (- i)) else showNat (nat i))"

text \<open>\<open>n.toString().padStart(2, '0')\<close> for an hour or a minute.\<close>

definition pad2 :: "int \<Rightarrow> string" where
  "pad2 n = (if n < 10 then ''0'' @ showInt n else showInt n)"

text \<open>The order of strings by code units; on \<open>HH:MM:SS\<close> strings it is also what
  \<open>localeCompare\<close> gives.\<close>

fun str_le :: "string \<Rightarrow> string \<Rightarrow> bool" where
  "str_le [] t = True"
| "str_le (c # cs) [] = False"
| "str_le (c # cs) (d # ds) =
     ((of_char c :: nat) < of_char d \<or> (c = d \<and> str_le cs ds))"

text \<open>\<open>sp.timeOfDay || sp.TimeOfDay\<close>\<close>

definition spTime :: "Switchpoint \<Rightarrow> string option" where
  "spTime sp =
     (case sp_timeOfDay sp of
        Some t \<Rightarrow> if t \<noteq> [] then Some t else sp_TimeOfDay sp
      | None \<Rightarrow> sp_TimeOfDay sp)"

definition timeKey :: "Switchpoint \<Rightarrow> string" where
  "timeKey sp = (case spTime sp of Some t \<Rightarrow> t | None \<Rightarrow> [])"

text \<open>The stable sort of the switchpoints by time.\<close>

fun insortTime :: "Switchpoint \<Rightarrow> Switchpoint list \<Rightarrow> Switchpoint list" where
  "insortTime x [] = [x]"
| "insortTime x (y # ys) =
     (if str_le (timeKey x) (timeKey y) then x # y # ys else y # insortTime x ys)"

definition sortByTime :: "Switchpoint list \<Rightarrow> Switchpoint list" where
  "sortByTime sps = foldr insortTime sps []"

text \<open>The loop that looks for the active switchpoint, with \<open>activeTemp\<close> as accumulator.\<close>

fun activeLoop :: "string \<Rightarrow> Switchpoint list \<Rightarrow> rat option \<Rightarrow> rat option" where
  "activeLoop currentTime [] activeTemp = activeTemp"
| "activeLoop currentTime (sp # sps) activeTemp =
     (if str_le (timeKey sp) currentTime \<and> sp_heatSetpoint sp \<noteq> None
      then activeLoop currentTime sps (sp_heatSetpoint sp)
      else activeTemp)"

definition dayNamesCapital :: "string list" where
  "dayNamesCapital = [''Sunday'', ''Monday'', ''Tuesday'', ''Wednesday'', ''Thursday'',
                      ''Friday'', ''Saturday'']"

definition getScheduledTemperature :: "DeviceCacheService \<Rightarrow> string \<Rightarrow> instant \<Rightarrow> rat option" where
  "getScheduledTemperature svc zone date =
     (case find (\<lambda>s. zoneId s = zone) (zoneSchedules svc) of
        None \<Rightarrow> None
      | Some schedule \<Rightarrow>
          (let dow = getDay date;
               currentTime = pad2 (getHours date) @ '':'' @ pad2 (getMinutes date) @ '':00''
           in case find (\<lambda>ds. case dayOfWeek ds of
                                  DayName n \<Rightarrow> n = dayNamesCapital ! nat dow
                                | DayNumber k \<Rightarrow> k = dow)
                        (dailySchedules schedule) of
                None \<Rightarrow> None
              | Some daySchedule \<Rightarrow>
                  (case switchpoints daySchedule of
                     None \<Rightarrow> None
                   | Some sps \<Rightarrow>
                       if length sps = 0 then None
                       else
                         (let sortedSwitchpoints =
                                sortByTime (filter (\<lambda>sp. spTime sp \<noteq> None) sps)
                          in if length sortedSwitchpoints = 0 then None
                             else
                               (let activeTemp = activeLoop currentTime sortedSwitchpoints None
                                in if activeTemp = None
                                   then sp_heatSetpoint (last sortedSwitchpoints)
                                   else activeTemp)))))"

subsection \<open>Optimistic updates\<close>

definition updateDeviceState ::
  "DeviceCacheService \<Rightarrow> int \<Rightarrow> rat \<Rightarrow> string \<Rightarrow> instant \<Rightarrow> thrown + DeviceCacheService" where
  "updateDeviceState svc deviceId temperature status now =
     (case deviceCache svc of
        None \<Rightarrow> Inr svc
      | Some cache \<Rightarrow>
          (case find (\<lambda>d. deviceID d = Some deviceId) cache of
             None \<Rightarrow> Inr svc
           | Some device \<Rightarrow>
               (let (finalTemp, shouldUpdateTemp) =
                      (if temperature = 0 \<and> status = ''Scheduled'' then
                         (case getScheduledTemperature svc (showInt deviceId) now of
                            Some scheduledTemp \<Rightarrow> (scheduledTemp, True)
                          | None \<Rightarrow> (temperature, False))
                       else (temperature, True))
                in case thermostat device of
                     None \<Rightarrow> Inl typeError
                   | Some th \<Rightarrow>
                       (case changeableValues th of
                          None \<Rightarrow> Inl typeError
                        | Some cv \<Rightarrow>
                            (let setpoint =
                                   (case heatSetpoint cv of
                                      None \<Rightarrow>
                                        \<lparr>hs_value = (if shouldUpdateTemp then finalTemp else 0),
                                         hs_status = status,
                                         hs_optimisticUpdateTime = Some now\<rparr>
                                    | Some old \<Rightarrow>
                                        (if shouldUpdateTemp then old\<lparr>hs_value := finalTemp\<rparr>
                                         else old)
                                          \<lparr>hs_status := status,
                                           hs_optimisticUpdateTime := Some now\<rparr>)
                             in Inr (svc\<lparr>deviceCache :=
                                      Some (updateFirst (\<lambda>d. deviceID d = Some deviceId)
                                              (\<lambda>d. setHeatSetpoint d setpoint) cache)\<rparr>))))))"

definition updateDHWState ::
  "DeviceCacheService \<Rightarrow> int \<Rightarrow> string \<Rightarrow> string \<Rightarrow> instant \<Rightarrow> thrown + DeviceCacheService" where
  "updateDHWState svc deviceId mode status now =
     (case deviceCache svc of
        None \<Rightarrow> Inr svc
      | Some cache \<Rightarrow>
          (case find (\<lambda>d. deviceID d = Some deviceId) cache of
             None \<Rightarrow> Inr svc
           | Some device \<Rightarrow>
               if thermostatModelType device \<noteq> ''DOMESTIC_HOT_WATER'' then Inr svc
               else
                 (case thermostat device of
                    None \<Rightarrow> Inl typeError
                  | Some th \<Rightarrow>
                      (let cv = (case changeableValues th of
                                   None \<Rightarrow> \<lparr>heatSetpoint = None, cv_mode = None, cv_state = None,
                                             cv_status = None, cv_nextTime = None,
                                             cv_optimisticUpdateTime = None\<rparr>
                                 | Some old \<Rightarrow> old);
                           stamped = cv\<lparr>cv_mode := Some mode, cv_status := Some status,
                                        cv_optimisticUpdateTime := Some now\<rparr>
                       in Inr (svc\<lparr>deviceCache :=
                                Some (updateFirst (\<lambda>d. deviceID d = Some deviceId)
                                        (\<lambda>d. d\<lparr>thermostat :=
                                                  Some (th\<lparr>changeableValues := Some stamped\<rparr>)\<rparr>)
                                        cache)\<rparr>)))))"

lemma heatSetpointOf_setHeatSetpoint:
  "heatSetpointOf d = Some old \<Longrightarrow> heatSetpointOf (setHeatSetpoint d sp) = Some sp"
  by (auto simp add: heatSetpointOf_def setHeatSetpoint_def split: option.splits)

lemma deviceID_setHeatSetpoint [simp]:
  "deviceID (setHeatSetpoint d sp) = deviceID d"
  by (simp add: setHeatSetpoint_def split: option.splits)

lemma find_updateFirst:
  assumes "\<And>x. P x \<Longrightarrow> P (f x)"
  shows "find P (updateFirst P f xs) = map_option f (find P xs)"
  using assms by (induction xs) auto

lemma mergeDevice_preserves_heatSetpoint:
  assumes "find (\<lambda>d. deviceID d = deviceID newDevice) cache = Some existingDevice"
    and "heatSetpointOf existingDevice = Some existingSetpoint"
    and "heatSetpointOf newDevice = Some newSetpoint"
    and "hs_value existingSetpoint \<noteq> hs_value newSetpoint"
    and "hs_optimisticUpdateTime existingSetpoint = Some t" and "t \<noteq> 0"
  shows "now - t < 5000 \<Longrightarrow>
           heatSetpointOf (mergeDevice cache now newDevice) = Some existingSetpoint"
    and "now - t \<ge> 5000 \<Longrightarrow> mergeDevice cache now newDevice = newDevice"
  using assms
  by (simp_all add: mergeDevice_def truthyTime_def Let_def heatSetpointOf_setHeatSetpoint)

text \<open>
  Claim C10.  \<open>updateDeviceState(deviceId, 0.0, 'Scheduled')\<close>, for a cached device that
  has a heat setpoint and a zone for which \<open>getScheduledTemperature\<close> returns null, does
  not throw; it leaves the schedules and every other device as they are, and replaces the
  device's heat setpoint by the old one with only \<open>status\<close> and \<open>_optimisticUpdateTime\<close>
  changed, so the \<open>value\<close> is the old value.
\<close>

theorem updateDeviceState_status_only:
  assumes "deviceCache svc = Some cache"
    and "find (\<lambda>d. deviceID d = Some deviceId) cache = Some device"
    and "heatSetpointOf device = Some old"
    and "getScheduledTemperature svc (showInt deviceId) now = None"
  shows "\<exists>svc'. updateDeviceState svc deviceId 0 ''Scheduled'' now = Inr svc'
           \<and> zoneSchedules svc' = zoneSchedules svc
           \<and> deviceCache svc' =
               Some (updateFirst (\<lambda>d. deviceID d = Some deviceId)
                       (\<lambda>d. setHeatSetpoint d
                               (old\<lparr>hs_status := ''Scheduled'',
                                    hs_optimisticUpdateTime := Some now\<rparr>)) cache)
           \<and> (\<exists>cache' device'. deviceCache svc' = Some cache'
                 \<and> find (\<lambda>d. deviceID d = Some deviceId) cache' = Some device'
                 \<and> heatSetpointOf device' =
                     Some \<lparr>hs_value = hs_value old, hs_status = ''Scheduled'',
                           hs_optimisticUpdateTime = Some now\<rparr>)"
proof -
  obtain th cv where th: "thermostat device = Some th"
    and cv: "changeableValues th = Some cv" and sp: "heatSetpoint cv = Some old"
    using assms(3) by (auto simp add: heatSetpointOf_def split: option.splits)
  define new where "new = old\<lparr>hs_status := ''Scheduled'', hs_optimisticUpdateTime := Some now\<rparr>"
  define cache' where
    "cache' = updateFirst (\<lambda>d. deviceID d = Some deviceId) (\<lambda>d. setHeatSetpoint d new) cache"
  have run: "updateDeviceState svc deviceId 0 ''Scheduled'' now
               = Inr (svc\<lparr>deviceCache := Some cache'\<rparr>)"
    using assms(1,2,4) th cv sp
    by (simp add: updateDeviceState_def Let_def new_def cache'_def)
  have f: "find (\<lambda>d. deviceID d = Some deviceId) cache' = Some (setHeatSetpoint device new)"
    unfolding cache'_def using assms(2) by (simp add: find_updateFirst)
  have h: "heatSetpointOf (setHeatSetpoint device new) = Some new"
    using assms(3) by (rule heatSetpointOf_setHeatSetpoint)
  have n: "old\<lparr>hs_status := ''Scheduled'', hs_optimisticUpdateTime := Some now\<rparr>
             = \<lparr>hs_value = hs_value old, hs_status = ''Scheduled'',
                hs_optimisticUpdateTime = Some now\<rparr>"
    by simp
  show ?thesis
    using run f h unfolding cache'_def new_def n by simp
qed

definition livingRoom :: Device where
  "livingRoom =
     \<lparr>dev_name = Some ''Living Room'', thermostatModelType = ''EMEA_ZONE'',
      thermostat = Some \<lparr>indoorTemperature = Some 19, indoorTemperatureStatus = None,
                         changeableValues =
                           Some \<lparr>heatSetpoint = Some \<lparr>hs_value = 23, hs_status = ''Temporary'',
                                                      hs_optimisticUpdateTime = None\<rparr>,
                                 cv_mode = None, cv_state = None, cv_status = None,
                                 cv_nextTime = None, cv_optimisticUpdateTime = None\<rparr>\<rparr>,
      deviceID = Some 5, gatewayId = None\<rparr>"

definition hotWater :: Device where
  "hotWater =
     \<lparr>dev_name = Some ''Hot Water'', thermostatModelType = ''DOMESTIC_HOT_WATER'',
      thermostat = Some \<lparr>indoorTemperature = Some 50, indoorTemperatureStatus = None,
                         changeableValues =
                           Some \<lparr>heatSetpoint = None, cv_mode = Some ''DHWOff'',
                                 cv_state = None, cv_status = Some ''Scheduled'',
                                 cv_nextTime = None, cv_optimisticUpdateTime = None\<rparr>\<rparr>,
      deviceID = Some 7, gatewayId = None\<rparr>"

text \<open>A cache filled by a first \<open>setDevices\<close>, with a schedule cached for zone 7 only.\<close>

definition filledCache :: DeviceCacheService where
  "filledCache =
     setDevices
       \<lparr>deviceCache = None,
        zoneSchedules = [\<lparr>zoneId = ''7'', zs_name = ''Hot Water'', scheduleId = None,
                          dailySchedules = []\<rparr>]\<rparr>
       [livingRoom, hotWater] 0"

lemma filledCache_eq:
  "filledCache =
     \<lparr>deviceCache = Some [livingRoom, hotWater],
      zoneSchedules = [\<lparr>zoneId = ''7'', zs_name = ''Hot Water'', scheduleId = None,
                        dailySchedules = []\<rparr>]\<rparr>"
  by (simp add: filledCache_def setDevices_def)

lemma showInt_5: "showInt 5 = ''5''"
  by (simp add: showInt_def showNat.simps)

theorem updateDeviceState_status_only_witness:
  "\<exists>svc' cache' device'.
      updateDeviceState filledCache 5 0 ''Scheduled'' 7000 = Inr svc'
      \<and> deviceCache svc' = Some cache'
      \<and> find (\<lambda>d. deviceID d = Some 5) cache' = Some device'
      \<and> heatSetpointOf device' =
          Some \<lparr>hs_value = 23, hs_status = ''Scheduled'', hs_optimisticUpdateTime = Some 7000\<rparr>"
proof -
  have a: "deviceCache filledCache = Some [livingRoom, hotWater]"
    by (simp add: filledCache_eq)
  have b: "find (\<lambda>d. deviceID d = Some 5) [livingRoom, hotWater] = Some livingRoom"
    by (simp add: livingRoom_def)
  have c: "heatSetpointOf livingRoom =
             Some \<lparr>hs_value = 23, hs_status = ''Temporary'', hs_optimisticUpdateTime = None\<rparr>"
    by (simp add: heatSetpointOf_def livingRoom_def)
  have d: "getScheduledTemperature filledCache (showInt 5) 7000 = None"
    by (simp add: getScheduledTemperature_def filledCache_eq showInt_5)
  from updateDeviceState_status_only [OF a b c d] show ?thesis
    by auto
qed

text \<open>The hot-water device after \<open>updateDHWState(7, 'DHWOn', 'Temporary')\<close> at 1000 ms.\<close>

definition hotWaterBoosted :: Device where
  "hotWaterBoosted =
     \<lparr>dev_name = Some ''Hot Water'', thermostatModelType = ''DOMESTIC_HOT_WATER'',
      thermostat = Some \<lparr>indoorTemperature = Some 50, indoorTemperatureStatus = None,
                         changeableValues =
                           Some \<lparr>heatSetpoint = None, cv_mode = Some ''DHWOn'',
                                 cv_state = None, cv_status = Some ''Temporary'',
                                 cv_nextTime = None, cv_optimisticUpdateTime = Some 1000\<rparr>\<rparr>,
      deviceID = Some 7, gatewayId = None\<rparr>"

text \<open>
  Claim C2.  The merge of \<open>setDevices\<close> looks at the heat setpoint only.  The marker that
  \<open>updateDHWState\<close> stamps on the changeable values of a hot-water device is never read:
  after the hot water is switched to \<open>DHWOn\<close>/\<open>Temporary\<close> locally at 1000 ms, a snapshot
  merged at 2000 ms that still says \<open>DHWOff\<close>/\<open>Scheduled\<close> replaces the local mode and
  status, although the marker is one second old.
\<close>

theorem setDevices_overwrites_recent_DHW:
  "updateDHWState filledCache 7 ''DHWOn'' ''Temporary'' 1000
     = Inr (filledCache\<lparr>deviceCache := Some [livingRoom, hotWaterBoosted]\<rparr>)
   \<and> 2000 - 1000 < (5000::int)
   \<and> hotWaterBoosted \<noteq> hotWater
   \<and> deviceCache (setDevices (filledCache\<lparr>deviceCache := Some [livingRoom, hotWaterBoosted]\<rparr>)
                    [livingRoom, hotWater] 2000)
       = Some [livingRoom, hotWater]"
  by (simp add: updateDHWState_def filledCache_eq setDevices_def mergeDevice_def
        heatSetpointOf_def livingRoom_def hotWater_def hotWaterBoosted_def Let_def)

text \<open>The heat setpoint, by contrast, is kept while its marker is recent: a boost of the
  living room to 25 at 1000 ms survives a snapshot at 2000 ms and gives way at 6000 ms.\<close>

lemma setDevices_keeps_recent_heatSetpoint:
  "\<exists>svc1. updateDeviceState filledCache 5 25 ''Temporary'' 1000 = Inr svc1
      \<and> map heatSetpointOf
           (case deviceCache (setDevices svc1 [livingRoom, hotWater] 2000) of
              Some c \<Rightarrow> c | None \<Rightarrow> [])
         = [Some \<lparr>hs_value = 25, hs_status = ''Temporary'',
                  hs_optimisticUpdateTime = Some 1000\<rparr>, None]
      \<and> deviceCache (setDevices svc1 [livingRoom, hotWater] 6000)
         = Some [livingRoom, hotWater]"
  by (simp add: updateDeviceState_def filledCache_eq setDevices_def mergeDevice_def
        heatSetpointOf_def setHeatSetpoint_def truthyTime_def livingRoom_def hotWater_def Let_def)

section \<open>lib/task-scheduler: the task scheduler\<close>

datatype task_status = NOT_RUN | Pending | Running | OK | Failed

text \<open>\<open>lastRun\<close> and \<open>nextRun\<close> are \<open>Date | null\<close>; \<open>nextRun\<close> is built from a delay
  that may be \<open>NaN\<close>, which gives an invalid \<open>Date\<close> (\<open>Some None\<close>).\<close>

record TaskStatus =
  ts_taskId :: string
  lastRun :: "instant option"
  nextRun :: "jsnum option"
  status :: task_status
  statusDetail :: string
  ts_intervalMinutes :: int
  totalRuns :: nat

text \<open>The handler of a task is not a field here: it is an argument of \<open>executeTask\<close>.\<close>

record TaskConfig =
  taskId :: string
  label :: string
  intervalMinutes :: int
  priority :: int
  runOnStartup :: "bool option"
  minRescheduleThreshold :: "int option"

text \<open>
  The callback of a task timer marks the task \<open>Pending\<close> and queues \<open>executeTask\<close> for
  it at the priority captured when the timer was armed; the other timer is the debounce
  of the queue.  The timeouts armed in the event loop are part of the state: each has
  the handle that \<open>setTimeout\<close> returned, the instant at which it is due and its callback.
\<close>

datatype timer_callback = QueueTask string int | DebounceElapsed

record Timeout =
  to_handle :: nat
  to_due :: instant
  to_callback :: timer_callback

record TaskScheduler =
  timers :: "string \<rightharpoonup> nat"
  taskStatuses :: "string \<rightharpoonup> TaskStatus"
  taskConfigs :: "string \<rightharpoonup> TaskConfig"
  operationQueue :: "(string \<times> int) list"
  isProcessingQueue :: bool
  queueProcessingTimer :: "nat option"
  armedTimeouts :: "Timeout list"
  nextHandle :: nat

definition newTaskScheduler :: TaskScheduler where
  "newTaskScheduler =
     \<lparr>timers = Map.empty, taskStatuses = Map.empty, taskConfigs = Map.empty,
      operationQueue = [], isProcessingQueue = False, queueProcessingTimer = None,
      armedTimeouts = [], nextHandle = 0\<rparr>"

text \<open>What \<open>writeLog\<close> is called with: one constructor for each message of the scheduler,
  with the values the message interpolates.\<close>

datatype log_level = DEBUG | INFO | WARNING | ERROR

datatype log_event =
    LogRegistered string string int int
  | LogNextRunIn string jsnum
  | LogTaskNotFound string
  | LogRescheduleNow string int int
  | LogApplyAfterRun string int int
  | LogTaskFailed string string

fun logLevel :: "log_event \<Rightarrow> log_level" where
  "logLevel (LogRegistered _ _ _ _) = INFO"
| "logLevel (LogNextRunIn _ _) = DEBUG"
| "logLevel (LogTaskNotFound _) = WARNING"
| "logLevel (LogRescheduleNow _ _ _) = INFO"
| "logLevel (LogApplyAfterRun _ _ _) = INFO"
| "logLevel (LogTaskFailed _ _) = ERROR"

definition setTimeout ::
  "TaskScheduler \<Rightarrow> timer_callback \<Rightarrow> jsnum \<Rightarrow> instant \<Rightarrow> nat \<times> TaskScheduler" where
  "setTimeout s callback delay now =
     (nextHandle s,
      s\<lparr>armedTimeouts := armedTimeouts s @
                            [\<lparr>to_handle = nextHandle s, to_due = now + effectiveDelay delay,
                              to_callback = callback\<rparr>],
        nextHandle := nextHandle s + 1\<rparr>)"

definition clearTimeout :: "TaskScheduler \<Rightarrow> nat \<Rightarrow> TaskScheduler" where
  "clearTimeout s h = s\<lparr>armedTimeouts := filter (\<lambda>t. to_handle t \<noteq> h) (armedTimeouts s)\<rparr>"

definition registerTask ::
  "TaskScheduler \<Rightarrow> TaskConfig \<Rightarrow> thrown + (TaskScheduler \<times> log_event list)" where
  "registerTask s config =
     (if taskConfigs s (taskId config) \<noteq> None then
        Inl (ErrorObj (''Task '' @ [CHR 0x27] @ taskId config @ [CHR 0x27]
                        @ '' is already registered''))
      else
        Inr (s\<lparr>taskConfigs := (taskConfigs s)(taskId config \<mapsto> config),
                taskStatuses := (taskStatuses s)(taskId config \<mapsto>
                   \<lparr>ts_taskId = taskId config, lastRun = None, nextRun = None,
                    status = NOT_RUN, statusDetail = [],
                    ts_intervalMinutes = intervalMinutes config, totalRuns = 0\<rparr>)\<rparr>,
             [LogRegistered (label config) (taskId config) (intervalMinutes config)
                (priority config)]))"

text \<open>\<open>new Date(Date.now() + delay)\<close>\<close>

definition dateAfter :: "instant \<Rightarrow> jsnum \<Rightarrow> jsnum" where
  "dateAfter now delay = (case delay of None \<Rightarrow> None | Some d \<Rightarrow> Some (now + d))"

definition scheduleTask ::
  "TaskScheduler \<Rightarrow> string \<Rightarrow> instant \<Rightarrow> TaskScheduler \<times> log_event list" where
  "scheduleTask s tid now =
     (case (taskConfigs s tid, taskStatuses s tid) of
        (Some config, Some st) \<Rightarrow>
          (let s1 = (case timers s tid of
                       Some existingTimer \<Rightarrow> clearTimeout s existingTimer
                     | None \<Rightarrow> s);
               initialDelay = getNextAlignedDelay (intervalMinutes config) now;
               s2 = s1\<lparr>taskStatuses :=
                          (taskStatuses s1)(tid \<mapsto> st\<lparr>nextRun := Some (dateAfter now initialDelay)\<rparr>)\<rparr>;
               (timer, s3) = setTimeout s2 (QueueTask tid (priority config)) initialDelay now
           in (s3\<lparr>timers := (timers s3)(tid \<mapsto> timer)\<rparr>,
               [LogNextRunIn (label config) initialDelay]))
      | _ \<Rightarrow> (s, []))"

text \<open>\<open>scheduleNextRun\<close> repeats the computation of \<open>getNextAlignedDelay\<close> on the interval
  of the status record, and does not clear the timer it replaces in the map.\<close>

definition scheduleNextRun ::
  "TaskScheduler \<Rightarrow> string \<Rightarrow> instant \<Rightarrow> TaskScheduler \<times> log_event list" where
  "scheduleNextRun s tid now =
     (case (taskConfigs s tid, taskStatuses s tid) of
        (Some config, Some st) \<Rightarrow>
          (let currentMinutes = getMinutes now;
               currentSeconds = getSeconds now;
               currentMs = getMilliseconds now;
               nextDelay =
                 (if ts_intervalMinutes st = 0 then None
                  else
                    let intervalsPassed = currentMinutes div ts_intervalMinutes st;
                        nextIntervalMinute = (intervalsPassed + 1) * ts_intervalMinutes st
                    in if nextIntervalMinute \<ge> 60 then
                         (let minutesUntilNextHour = 60 - currentMinutes;
                              secondsUntilNextHour = 60 - currentSeconds;
                              msUntilNextHour = 1000 - currentMs
                          in Some ((minutesUntilNextHour - 1) * 60 * 1000
                                   + secondsUntilNextHour * 1000 + msUntilNextHour))
                       else
                         (let minutesUntilNext = nextIntervalMinute - currentMinutes;
                              secondsUntilNext = 60 - currentSeconds;
                              msUntilNext = 1000 - currentMs
                          in Some ((minutesUntilNext - 1) * 60 * 1000
                                   + secondsUntilNext * 1000 + msUntilNext)));
               s1 = s\<lparr>taskStatuses :=
                         (taskStatuses s)(tid \<mapsto> st\<lparr>nextRun := Some (dateAfter now nextDelay)\<rparr>)\<rparr>;
               (timer, s2) = setTimeout s1 (QueueTask tid (priority config)) nextDelay now
           in (s2\<lparr>timers := (timers s2)(tid \<mapsto> timer)\<rparr>, []))
      | _ \<Rightarrow> (s, []))"

definition updateTaskInterval ::
  "TaskScheduler \<Rightarrow> string \<Rightarrow> int \<Rightarrow> instant \<Rightarrow> TaskScheduler \<times> log_event list" where
  "updateTaskInterval s tid newIntervalMinutes now =
     (case (taskConfigs s tid, taskStatuses s tid) of
        (Some config, Some st) \<Rightarrow>
          if newIntervalMinutes = ts_intervalMinutes st then (s, [])
          else
            (let minThresholdMs =
                   (case minRescheduleThreshold config of
                      Some m \<Rightarrow> if m \<noteq> 0 then m else 5
                    | None \<Rightarrow> 5) * 60 * 1000;
                 timeUntilNextRun =
                   (case nextRun st of
                      Some (Some t) \<Rightarrow> Some (t - now)
                    | Some None \<Rightarrow> None
                    | None \<Rightarrow> Some 0);
                 updated =
                   s\<lparr>taskConfigs :=
                        (taskConfigs s)(tid \<mapsto> config\<lparr>intervalMinutes := newIntervalMinutes\<rparr>),
                     taskStatuses :=
                        (taskStatuses s)(tid \<mapsto> st\<lparr>ts_intervalMinutes := newIntervalMinutes\<rparr>)\<rparr>
             in if (case timeUntilNextRun of Some d \<Rightarrow> d > minThresholdMs | None \<Rightarrow> False)
                then
                  (let (s', logs) = scheduleTask updated tid now
                   in (s', LogRescheduleNow (label config) (ts_intervalMinutes st)
                             newIntervalMinutes # logs))
                else
                  (updated,
                   [LogApplyAfterRun (label config) (ts_intervalMinutes st) newIntervalMinutes]))
      | _ \<Rightarrow> (s, [LogTaskNotFound tid]))"

text \<open>
  \<open>try { body } catch (e) { handler } finally { fin }\<close> over a state: the handler runs
  when the body throws, the final block always runs, and what escapes is what the final
  block throws, else what the handler throws, else nothing.
\<close>

definition tryCatchFinally ::
  "'s \<Rightarrow> ('s \<Rightarrow> (thrown + unit) \<times> 's) \<Rightarrow> (thrown \<Rightarrow> 's \<Rightarrow> (thrown + unit) \<times> 's)
     \<Rightarrow> ('s \<Rightarrow> (thrown + unit) \<times> 's) \<Rightarrow> (thrown + unit) \<times> 's" where
  "tryCatchFinally s body handler fin =
     (let (r1, s1) = body s;
          (r2, s2) = (case r1 of Inl e \<Rightarrow> handler e s1 | Inr u \<Rightarrow> (Inr u, s1));
          (r3, s3) = fin s2
      in (case r3 of Inl e \<Rightarrow> Inl e | Inr _ \<Rightarrow> r2, s3))"

text \<open>An assignment to a field of the status object that \<open>executeTask\<close> holds.  Status
  objects are never removed from the map nor replaced in it, so the object held is the
  entry of the map.\<close>

definition modifyStatus ::
  "TaskScheduler \<Rightarrow> string \<Rightarrow> (TaskStatus \<Rightarrow> TaskStatus) \<Rightarrow> TaskScheduler" where
  "modifyStatus s tid f =
     (case taskStatuses s tid of
        Some st \<Rightarrow> s\<lparr>taskStatuses := (taskStatuses s)(tid \<mapsto> f st)\<rparr>
      | None \<Rightarrow> s)"

text \<open>
  The handler of the task is any computation on the scheduler that resolves or rejects:
  while it is awaited it may itself call the scheduler.  \<open>now\<close> is the clock when the
  awaited handler has settled.
\<close>

definition executeTask ::
  "TaskScheduler \<Rightarrow> string \<Rightarrow> (TaskScheduler \<Rightarrow> unit outcome \<times> TaskScheduler) \<Rightarrow> instant
     \<Rightarrow> (thrown + unit) \<times> (TaskScheduler \<times> log_event list)" where
  "executeTask s tid handler now =
     (case (taskConfigs s tid, taskStatuses s tid) of
        (Some config, Some st) \<Rightarrow>
          tryCatchFinally
            (s\<lparr>taskStatuses :=
                 (taskStatuses s)(tid \<mapsto> st\<lparr>status := Running, statusDetail := [],
                                               totalRuns := totalRuns st + 1\<rparr>)\<rparr>, [])
            (\<lambda>(s1, logs).
                case handler s1 of
                  (Resolved _, s2) \<Rightarrow>
                    (Inr (),
                     (modifyStatus s2 tid (\<lambda>x. x\<lparr>status := OK, statusDetail := []\<rparr>), logs))
                | (Rejected e, s2) \<Rightarrow> (Inl e, (s2, logs)))
            (\<lambda>error (s2, logs).
                let detail = (case error of ErrorObj message \<Rightarrow> message | OtherValue v \<Rightarrow> v)
                in (Inr (),
                    (modifyStatus s2 tid (\<lambda>x. x\<lparr>status := Failed, statusDetail := detail\<rparr>),
                     logs @ [LogTaskFailed (label config) detail])))
            (\<lambda>(s3, logs).
                let s4 = modifyStatus s3 tid (\<lambda>x. x\<lparr>lastRun := Some now\<rparr>);
                    (s5, more) = scheduleNextRun s4 tid now
                in (Inr (), (s5, logs @ more)))
      | _ \<Rightarrow> (Inr (), (s, [])))"

lemma scheduleNextRun_delay:
  assumes "taskConfigs s tid = Some config" and "taskStatuses s tid = Some st"
  shows "scheduleNextRun s tid now =
           (let d = getNextAlignedDelay (ts_intervalMinutes st) now;
                s1 = s\<lparr>taskStatuses :=
                         (taskStatuses s)(tid \<mapsto> st\<lparr>nextRun := Some (dateAfter now d)\<rparr>)\<rparr>;
                (timer, s2) = setTimeout s1 (QueueTask tid (priority config)) d now
            in (s2\<lparr>timers := (timers s2)(tid \<mapsto> timer)\<rparr>, []))"
  using assms by (simp add: scheduleNextRun_def getNextAlignedDelay_def Let_def)

definition zoneStatusTask :: TaskConfig where
  "zoneStatusTask =
     \<lparr>taskId = ''evohome:zoneStatus'', label = ''Zone Status Polling'', intervalMinutes = 5,
      priority = 1, runOnStartup = Some True, minRescheduleThreshold = None\<rparr>"

definition oneTaskScheduler :: TaskScheduler where
  "oneTaskScheduler =
     (case registerTask newTaskScheduler zoneStatusTask of
        Inr (s, _) \<Rightarrow> s
      | Inl _ \<Rightarrow> newTaskScheduler)"

lemma oneTaskScheduler_maps:
  "taskConfigs oneTaskScheduler ''evohome:zoneStatus'' = Some zoneStatusTask"
  "taskStatuses oneTaskScheduler ''evohome:zoneStatus'' =
     Some \<lparr>ts_taskId = ''evohome:zoneStatus'', lastRun = None, nextRun = None,
           status = NOT_RUN, statusDetail = [], ts_intervalMinutes = 5, totalRuns = 0\<rparr>"
  "taskConfigs oneTaskScheduler ''evohome:ghost'' = None"
  by (simp_all add: oneTaskScheduler_def registerTask_def newTaskScheduler_def
        zoneStatusTask_def)

text \<open>
  Claim C9.  For a task identifier that is not registered, \<open>updateTaskInterval\<close> returns
  the scheduler exactly as it was (configurations, statuses, timers, armed timeouts and
  queue) and its only effect is one log line, at level WARNING.  No statement of the
  function throws, so the model is a total function to a state and its log lines.
\<close>

theorem updateTaskInterval_unknown_task:
  assumes "taskConfigs s tid = None"
  shows "updateTaskInterval s tid newIntervalMinutes now = (s, [LogTaskNotFound tid])
         \<and> logLevel (LogTaskNotFound tid) = WARNING"
  using assms by (simp add: updateTaskInterval_def)

theorem updateTaskInterval_unknown_task_witness:
  "taskConfigs oneTaskScheduler ''evohome:ghost'' = None
   \<and> updateTaskInterval oneTaskScheduler ''evohome:ghost'' 10 (mkInstant 0 12 3 10 0)
       = (oneTaskScheduler, [LogTaskNotFound ''evohome:ghost''])"
  using updateTaskInterval_unknown_task [OF oneTaskScheduler_maps(3), of 10 "mkInstant 0 12 3 10 0"]
    oneTaskScheduler_maps(3)
  by simp

text \<open>What a settled handler leaves in the status: the state and the detail.\<close>

definition settledStatus :: "unit outcome \<Rightarrow> task_status" where
  "settledStatus out = (case out of Resolved _ \<Rightarrow> OK | Rejected _ \<Rightarrow> Failed)"

definition settledDetail :: "unit outcome \<Rightarrow> string" where
  "settledDetail out =
     (case out of
        Resolved _ \<Rightarrow> []
      | Rejected (ErrorObj message) \<Rightarrow> message
      | Rejected (OtherValue v) \<Rightarrow> v)"

text \<open>
  Claim C8.  For a registered task and any handler, resolving or rejecting, nothing
  escapes \<open>executeTask\<close>.  Afterwards the status of the task is \<open>OK\<close> with an empty detail
  if the handler resolved, and \<open>Failed\<close> with the error's message as detail if it
  rejected; in both cases \<open>lastRun\<close> is the completion time, \<open>nextRun\<close> is the completion
  time plus the aligned delay, and a timeout that will queue the task again is armed and
  recorded for the task.  (The handler is assumed to leave the task registered, as every
  handler does: the scheduler has no operation that removes a task.)
\<close>

theorem executeTask_contains_failure:
  assumes "taskConfigs s tid = Some config"
    and "taskStatuses s tid = Some st"
    and "handler (s\<lparr>taskStatuses :=
                      (taskStatuses s)(tid \<mapsto> st\<lparr>status := Running, statusDetail := [],
                                                    totalRuns := totalRuns st + 1\<rparr>)\<rparr>)
           = (out, s2)"
    and "taskConfigs s2 tid = Some config2"
    and "taskStatuses s2 tid = Some st2"
  shows "\<exists>s' logs st' timer.
           executeTask s tid handler now = (Inr (), (s', logs))
           \<and> taskStatuses s' tid = Some st'
           \<and> status st' = settledStatus out
           \<and> statusDetail st' = settledDetail out
           \<and> lastRun st' = Some now
           \<and> nextRun st' = Some (dateAfter now (getNextAlignedDelay (ts_intervalMinutes st2) now))
           \<and> timers s' tid = Some timer
           \<and> \<lparr>to_handle = timer,
               to_due = now + effectiveDelay (getNextAlignedDelay (ts_intervalMinutes st2) now),
               to_callback = QueueTask tid (priority config2)\<rparr> \<in> set (armedTimeouts s')"
proof (cases out)
  case (Resolved u)
  show ?thesis
    using assms Resolved
    by (simp add: executeTask_def tryCatchFinally_def modifyStatus_def scheduleNextRun_delay
          setTimeout_def settledStatus_def settledDetail_def Let_def)
next
  case (Rejected e)
  show ?thesis
    using assms Rejected
    by (cases e)
       (simp_all add: executeTask_def tryCatchFinally_def modifyStatus_def scheduleNextRun_delay
          setTimeout_def settledStatus_def settledDetail_def Let_def)
qed

definition failingHandler :: "TaskScheduler \<Rightarrow> unit outcome \<times> TaskScheduler" where
  "failingHandler s = (Rejected (ErrorObj ''ECONNRESET''), s)"

theorem executeTask_contains_failure_witness:
  "\<exists>s' logs st' timer.
     executeTask oneTaskScheduler ''evohome:zoneStatus'' failingHandler (mkInstant 0 12 3 10 0)
       = (Inr (), (s', logs))
     \<and> taskStatuses s' ''evohome:zoneStatus'' = Some st'
     \<and> status st' = Failed
     \<and> statusDetail st' = ''ECONNRESET''
     \<and> lastRun st' = Some (mkInstant 0 12 3 10 0)
     \<and> nextRun st' = Some (Some (mkInstant 0 12 3 10 0 + 111000))
     \<and> timers s' ''evohome:zoneStatus'' = Some timer
     \<and> \<lparr>to_handle = timer, to_due = mkInstant 0 12 3 10 0 + 111000,
         to_callback = QueueTask ''evohome:zoneStatus'' 1\<rparr> \<in> set (armedTimeouts s')"
proof -
  define st0 where
    "st0 = \<lparr>ts_taskId = ''evohome:zoneStatus'', lastRun = None, nextRun = None,
             status = NOT_RUN, statusDetail = [], ts_intervalMinutes = 5, totalRuns = 0\<rparr>"
  define running where
    "running = st0\<lparr>status := Running, statusDetail := [], totalRuns := totalRuns st0 + 1\<rparr>"
  define s1 where
    "s1 = oneTaskScheduler\<lparr>taskStatuses :=
            (taskStatuses oneTaskScheduler)(''evohome:zoneStatus'' \<mapsto> running)\<rparr>"
  have t0: "taskStatuses oneTaskScheduler ''evohome:zoneStatus'' = Some st0"
    by (simp add: st0_def oneTaskScheduler_maps)
  have h: "failingHandler s1 = (Rejected (ErrorObj ''ECONNRESET''), s1)"
    by (simp add: failingHandler_def)
  have c2: "taskConfigs s1 ''evohome:zoneStatus'' = Some zoneStatusTask"
    by (simp add: s1_def oneTaskScheduler_maps)
  have t2: "taskStatuses s1 ''evohome:zoneStatus'' = Some running"
    by (simp add: s1_def)
  have d: "getNextAlignedDelay (ts_intervalMinutes running) (mkInstant 0 12 3 10 0) = Some 111000"
    by (simp add: running_def st0_def getNextAlignedDelay_def mkInstant_def getMinutes_def
          getSeconds_def getMilliseconds_def Let_def)
  have p: "priority zoneStatusTask = 1"
    by (simp add: zoneStatusTask_def)
  from executeTask_contains_failure
         [where handler = failingHandler, OF oneTaskScheduler_maps(1) t0
             h [unfolded s1_def running_def] c2 [unfolded s1_def running_def]
             t2 [unfolded s1_def running_def], of "mkInstant 0 12 3 10 0"]
  show ?thesis
    unfolding d [unfolded running_def] p
    by (simp add: settledStatus_def settledDetail_def dateAfter_def effectiveDelay_def)
qed

end
